theory Spec2Isabelle
  imports Complex_Main
begin

section \<open>Job runs (src/databricksApi/jobs/DatabricksJobRun.ts)\<close>

subsection \<open>The job-run record\<close>

text \<open>
  The interface \<open>iDatabricksJobRun\<close> is declared in \<open>./_types\<close>; the records below hold
  the fields that \<open>DatabricksJobRun\<close> reads. An optional field of the JSON record is an
  \<open>option\<close> (\<open>None\<close> is JavaScript's \<open>undefined\<close>): the record is parsed from JSON
  (\<open>fromJSON\<close>) and a payload may come without any of its fields. Timestamps and durations are the
  non-negative integer milliseconds of the Jobs API, so they are \<open>nat\<close>: JavaScript holds
  them in doubles, which are exact on integers below \<open>2 ^ 53\<close>.
\<close>

record iRunState =
  life_cycle_state :: string
  result_state :: "string option"

record iNotebookTask =
  notebook_path :: "string option"
  revision_timestamp :: "nat option"
  base_parameters :: "(string \<times> string) list option"

record iSparkJarTask =
  jar_uri :: "string option"
  main_class_name :: "string option"
  jar_parameters :: "string list option"

record iSparkPythonTask =
  python_file :: "string option"
  python_parameters :: "string list option"

record iSparkSubmitTask =
  submit_parameters :: "string list option"

record iRunTask =
  notebook_task :: "iNotebookTask option"
  spark_jar_task :: "iSparkJarTask option"
  spark_python_task :: "iSparkPythonTask option"
  spark_submit_task :: "iSparkSubmitTask option"

record iDatabricksJobRun =
  job_id :: nat
  run_id :: nat
  run_name :: string
  run_state :: iRunState
  task :: iRunTask
  start_time :: nat
  setup_duration :: nat
  execution_duration :: nat
  cleanup_duration :: nat
  run_page_url :: string

subsection \<open>The state bucket\<close>

text \<open>
  The getter \<open>state\<close>: a chain of comparisons of \<open>definition.state.result_state\<close>
  (the field \<open>state\<close> of the record is \<open>run_state\<close> here, the getter keeps the name).
\<close>

definition state :: "iDatabricksJobRun \<Rightarrow> string" where
  "state r =
     (if result_state (run_state r) = Some ''SUCCESS'' then ''succeeded''
      else if result_state (run_state r) = Some ''FAILED''
           \<or> result_state (run_state r) = Some ''CANCELED''
           \<or> result_state (run_state r) = Some ''TIMEDOUT'' then ''failed''
      else ''running'')"

subsection \<open>JavaScript built-ins and helpers of the extension\<close>

text \<open>
  What the getters use and this file does not define is a parameter: the conversion of a
  number to a string in a template literal, \<open>JSON.stringify\<close>, \<open>Helper.trimChar\<close> and
  the reading of the clock \<open>Date.now()\<close>.
\<close>

record js_env =
  Number_toString :: "rat \<Rightarrow> string"
  JSON_stringify :: "(string \<times> string) list \<Rightarrow> string"
  trimChar :: "string \<Rightarrow> string \<Rightarrow> string"
  Date_now :: nat

datatype js_error = RangeError | TypeError | Error string







definition digit :: "nat \<Rightarrow> char" where
  "digit d = ''0123456789'' ! (d mod 10)"


definition pad3 :: "nat \<Rightarrow> string" where
  "pad3 n = [digit (n div 100), digit (n div 10), digit n]"



subsection \<open>The task getters\<close>





subsection \<open>The tooltip\<close>


subsection \<open>Cancelling a run\<close>

text \<open>
  \<open>stop\<close> calls \<open>DatabricksApiService.cancelJunJob\<close>, registers the two handlers on the
  promise it returns, awaits \<open>Helper.wait(10000)\<close> and then executes the refresh command.
  The calls to collaborators are recorded as a trace. The promise of the remote call is
  settled by the collaborator: how it settles, and whether that happens while \<open>stop\<close> is
  suspended at its \<open>await\<close> or after \<open>stop\<close> has finished, is the parameter
  \<open>cancel_outcome\<close>. A handler runs when the promise settles.
\<close>

datatype settle_time = DuringWait | AfterRefresh

datatype cancel_outcome = Fulfilled settle_time | Rejected string settle_time | NeverSettled

datatype run_effect =
    CancelJunJob nat
  | ShowInformationMessage string
  | ShowErrorMessage string
  | HelperWait nat
  | ExecuteCommand string bool

text \<open>The events of a trace that are not notifications shown to the user.\<close>

fun is_notification :: "run_effect \<Rightarrow> bool" where
  "is_notification (ShowInformationMessage msg) = True"
| "is_notification (ShowErrorMessage msg) = True"
| "is_notification e = False"

definition label :: "iDatabricksJobRun \<Rightarrow> string" where
  "label r = ''Run '' @ run_name r"

definition job_run_id :: "iDatabricksJobRun \<Rightarrow> nat" where
  "job_run_id r = run_id r"

definition on_fulfilled :: "js_env \<Rightarrow> iDatabricksJobRun \<Rightarrow> run_effect" where
  "on_fulfilled env r =
     ShowInformationMessage
       (''Stopping job run '' @ label r @ '' ('' @ Number_toString env (of_nat (job_run_id r))
        @ '') ...'')"

definition on_rejected :: "string \<Rightarrow> run_effect" where
  "on_rejected error = ShowErrorMessage (''ERROR: '' @ error)"

definition handlers_at :: "js_env \<Rightarrow> iDatabricksJobRun \<Rightarrow> cancel_outcome \<Rightarrow> settle_time \<Rightarrow> run_effect list" where
  "handlers_at env r outcome t =
     (case outcome of
        Fulfilled t' \<Rightarrow> if t' = t then [on_fulfilled env r] else []
      | Rejected error t' \<Rightarrow> if t' = t then [on_rejected error] else []
      | NeverSettled \<Rightarrow> [])"

definition stop :: "js_env \<Rightarrow> iDatabricksJobRun \<Rightarrow> cancel_outcome \<Rightarrow> run_effect list" where
  "stop env r outcome =
     [CancelJunJob (job_run_id r)]
     @ handlers_at env r outcome DuringWait
     @ [HelperWait 10000, ExecuteCommand ''databricksJobs.refresh'' False]
     @ handlers_at env r outcome AfterRefresh"

section \<open>The connection manager (DatabricksConnectionManager)\<close>

subsection \<open>Configuration values\<close>

text \<open>
  The interfaces \<open>iWorkspaceConfiguration\<close>, \<open>iUserWorkspaceConfiguration\<close> and
  \<open>iDatabricksConnection\<close> are declared outside the two files; the records hold the fields
  the manager reads and writes. The class \<open>DatabricksConnection\<close> is stored where an
  \<open>iDatabricksConnection\<close> is expected (\<open>CurrentWorkspaceConfiguration\<close>), so both are
  one record type here.
\<close>

type_synonym ExportFormatsConfiguration = "(string \<times> string) list"

record iWorkspaceConfiguration =
  workspaceGuid :: "string option"
  lastActiveConnection :: "string option"

record iDatabricksConnection =
  displayName :: string
  cloudProvider :: string
  apiRootUrl :: string
  personalAccessToken :: string
  localSyncFolder :: string
  exportFormats :: ExportFormatsConfiguration
  useCodeCells :: bool

type_synonym DatabricksConnection = iDatabricksConnection

record iUserWorkspaceConfiguration =
  workspaceConfig :: iWorkspaceConfiguration
  connections :: "iDatabricksConnection list"

text \<open>
  What \<open>vscode.workspace.getConfiguration().get\<close> returns for the keys the manager reads:
  \<open>databricks.workspaceConfiguration\<close>, \<open>databricks.connections\<close>, the flat keys
  \<open>databricks.connection.default.*\<close> (as the object \<open>getDefaultConnectionFromWorkspace\<close>
  assembles from them) and \<open>databricks.userWorkspaceConfigurations\<close>. Every read of
  \<open>loadConnections\<close> comes before its first \<open>update\<close>, so one snapshot serves all reads.
\<close>

record Configuration =
  databricks_workspaceConfiguration :: iWorkspaceConfiguration
  databricks_connections :: "iDatabricksConnection list"
  databricks_connection_default :: iDatabricksConnection
  databricks_userWorkspaceConfigurations :: "iUserWorkspaceConfiguration list"

text \<open>
  The collaborators that are not in the two files are parameters: the constructor of
  \<open>DatabricksConnection\<close>, its method \<open>validate\<close>, and the value \<open>Helper.newGuid()\<close>
  returns when \<open>loadConnections\<close> calls it.
\<close>

record manager_env =
  newDatabricksConnection :: "iDatabricksConnection \<Rightarrow> DatabricksConnection"
  validate :: "DatabricksConnection \<Rightarrow> bool"
  newGuid :: string

subsection \<open>Effects and outcomes\<close>

text \<open>
  The calls the manager makes on its collaborators are recorded in the order they are made:
  \<open>getConfiguration().update(key, value, target)\<close> and
  \<open>DatabricksApiService.initialize(connection)\<close>. Log lines are not recorded.
\<close>

datatype ConfigurationTarget = Global | Workspace

datatype config_value =
    undefined_value
  | WorkspaceConfigurationValue iWorkspaceConfiguration
  | UserWorkspaceConfigurationsValue "iUserWorkspaceConfiguration list"
  | StringValue string

datatype effect =
    ConfigurationUpdate string config_value ConfigurationTarget
  | DatabricksApiService_initialize DatabricksConnection

record manager =
  this_workspaceConfig :: iWorkspaceConfiguration
  this_connections :: "DatabricksConnection list"
  this_activeConnection :: "DatabricksConnection option"
  this_initialized :: bool

text \<open>
  A method returns its value or raises, and leaves the manager and a trace behind in both
  cases. A method that does not return at all has no outcome (\<open>None\<close>).
\<close>

record 'a outcome =
  result :: "js_error + 'a"
  manager_after :: manager
  effects :: "effect list"

definition quoted :: "string \<Rightarrow> string" where
  "quoted s = [CHR 0x27] @ s @ [CHR 0x27]"

subsection \<open>Reading the three sources\<close>

text \<open>
  The loop of \<open>getConnectionsFromWorkspace\<close> and \<open>getConnectionsFromUserConfig\<close>: build
  a connection from each entry and keep it when \<open>validate\<close> accepts it.
\<close>

fun validated :: "manager_env \<Rightarrow> iDatabricksConnection list \<Rightarrow> DatabricksConnection list" where
  "validated env [] = []"
| "validated env (con # cons) =
     (let dbCon = newDatabricksConnection env con
      in if validate env dbCon then dbCon # validated env cons else validated env cons)"

definition getConnectionsFromWorkspace :: "manager_env \<Rightarrow> Configuration \<Rightarrow> DatabricksConnection list" where
  "getConnectionsFromWorkspace env cfg = validated env (databricks_connections cfg)"

definition getDefaultConnectionFromWorkspace :: "manager_env \<Rightarrow> Configuration \<Rightarrow> DatabricksConnection option" where
  "getDefaultConnectionFromWorkspace env cfg =
     (let defaultCon = newDatabricksConnection env (databricks_connection_default cfg)
      in if displayName defaultCon = [] \<or> \<not> validate env defaultCon then None
         else Some defaultCon)"

definition AllUserWorkspaceConfigurations :: "Configuration \<Rightarrow> iUserWorkspaceConfiguration list" where
  "AllUserWorkspaceConfigurations cfg = databricks_userWorkspaceConfigurations cfg"

definition duplicate_guid_message :: string where
  "duplicate_guid_message =
     ''There is an error in your User Workspace Configurations (''
     @ quoted ''databricks.userWorkspaceConfigurations''
     @ ''). Please make sure all '' @ quoted ''workspaceGuid'' @ '' are unique!''"

definition CurrentUserWorkspaceConfiguration ::
    "Configuration \<Rightarrow> manager \<Rightarrow> js_error + iUserWorkspaceConfiguration option" where
  "CurrentUserWorkspaceConfiguration cfg m =
     (let currentUserWorkspaceConfig =
            filter (\<lambda>x. workspaceGuid (workspaceConfig x) = workspaceGuid (this_workspaceConfig m))
              (AllUserWorkspaceConfigurations cfg)
      in case currentUserWorkspaceConfig of
           [x] \<Rightarrow> Inr (Some x)
         | [] \<Rightarrow> Inr None
         | _ \<Rightarrow> Inl (Error duplicate_guid_message))"

definition getConnectionsFromUserConfig ::
    "manager_env \<Rightarrow> Configuration \<Rightarrow> manager \<Rightarrow> js_error + DatabricksConnection list" where
  "getConnectionsFromUserConfig env cfg m =
     (case CurrentUserWorkspaceConfiguration cfg m of
        Inl e \<Rightarrow> Inl e
      | Inr None \<Rightarrow> Inr []
      | Inr (Some currentUserWorkspaceConfig) \<Rightarrow>
          Inr (validated env (connections currentUserWorkspaceConfig)))"

subsection \<open>The getters of the manager\<close>

text \<open>
  The getter \<open>Connections\<close> spins while \<open>_initialized\<close> is false. Nothing in the loop
  changes the flag, so on an uninitialised manager the getter does not return.
\<close>

partial_function (option) Connections :: "manager \<Rightarrow> DatabricksConnection list option" where
  "Connections m = (if \<not> this_initialized m then Connections m else Some (this_connections m))"

definition CurrentWorkspaceConfiguration :: "manager \<Rightarrow> iUserWorkspaceConfiguration option" where
  "CurrentWorkspaceConfiguration m =
     (case Connections m of
        None \<Rightarrow> None
      | Some cs \<Rightarrow> Some \<lparr>workspaceConfig = this_workspaceConfig m, connections = cs\<rparr>)"

subsection \<open>Writing the configuration\<close>

definition cleanConnectionsFromConfig :: "effect list" where
  "cleanConnectionsFromConfig =
     [ConfigurationUpdate ''databricks.connections'' undefined_value Workspace]"

definition cleanDefaultConnectionFromConfig :: "effect list" where
  "cleanDefaultConnectionFromConfig =
     [ConfigurationUpdate ''databricks.connection.default.displayName'' undefined_value Workspace,
      ConfigurationUpdate ''databricks.connection.default.cloudProvider'' undefined_value Workspace,
      ConfigurationUpdate ''databricks.connection.default.apiRootUrl'' undefined_value Workspace,
      ConfigurationUpdate ''databricks.connection.default.personalAccessToken'' undefined_value Workspace,
      ConfigurationUpdate ''databricks.connection.default.localSyncFolder'' undefined_value Workspace,
      ConfigurationUpdate ''databricks.connection.default.databricksConnectJars'' undefined_value Workspace,
      ConfigurationUpdate ''databricks.connection.default.pythonInterpreter'' undefined_value Workspace,
      ConfigurationUpdate ''databricks.connection.default.port'' undefined_value Workspace,
      ConfigurationUpdate ''databricks.connection.default.organizationId'' undefined_value Workspace,
      ConfigurationUpdate ''databricks.connection.default.exportFormats'' undefined_value Workspace,
      ConfigurationUpdate ''databricks.connection.default.useCodeCells'' undefined_value Workspace]"

definition updateWorkspaceConfig :: "manager \<Rightarrow> effect list" where
  "updateWorkspaceConfig m =
     [ConfigurationUpdate ''databricks.workspaceConfiguration''
        (WorkspaceConfigurationValue (this_workspaceConfig m)) Workspace]"

text \<open>
  \<open>updateUserWorkspaceConfig\<close>. Its local \<open>currentUserWorkspaceConfig\<close> is the object
  literal that \<open>CurrentWorkspaceConfiguration\<close> builds, which is never \<open>undefined\<close>: the
  \<open>else\<close> branch of the method cannot be taken. The getter is read a second time for the
  \<open>push\<close>, with the same result.
\<close>

definition updateUserWorkspaceConfig :: "Configuration \<Rightarrow> manager \<Rightarrow> effect list option" where
  "updateUserWorkspaceConfig cfg m =
     (case CurrentWorkspaceConfiguration m of
        None \<Rightarrow> None
      | Some currentUserWorkspaceConfig \<Rightarrow>
          let updatedUserWorkspaceConfigs =
                filter (\<lambda>x. workspaceGuid (workspaceConfig x) \<noteq> workspaceGuid (this_workspaceConfig m))
                  (AllUserWorkspaceConfigurations cfg)
                @ [currentUserWorkspaceConfig]
          in Some ([ConfigurationUpdate ''databricks.userWorkspaceConfigurations''
                      (UserWorkspaceConfigurationsValue updatedUserWorkspaceConfigs) Global]
                   @ cleanConnectionsFromConfig
                   @ cleanDefaultConnectionFromConfig))"

subsection \<open>Loading\<close>

definition loadConnections :: "manager_env \<Rightarrow> Configuration \<Rightarrow> manager \<Rightarrow> unit outcome option" where
  "loadConnections env cfg m =
     (let workspaceConfig0 = databricks_workspaceConfiguration cfg;
          m1 = m\<lparr>this_workspaceConfig :=
                   (if workspaceGuid workspaceConfig0 = None
                    then workspaceConfig0\<lparr>workspaceGuid := Some (newGuid env)\<rparr>
                    else workspaceConfig0)\<rparr>;
          m2 = m1\<lparr>this_connections := getConnectionsFromWorkspace env cfg\<rparr>;
          defaultConnectionFromWorkspace = getDefaultConnectionFromWorkspace env cfg
      in case getConnectionsFromUserConfig env cfg m2 of
           Inl e \<Rightarrow> Some \<lparr>result = Inl e, manager_after = m2, effects = []\<rparr>
         | Inr connectionsFromUserConfig \<Rightarrow>
             let m3 = (case defaultConnectionFromWorkspace of
                         None \<Rightarrow> m2
                       | Some d \<Rightarrow>
                           if displayName d \<notin> set (map displayName (this_connections m2))
                           then m2\<lparr>this_connections := this_connections m2 @ [d]\<rparr>
                           else m2);
                 newConnectionsFromWorkspace =
                   filter (\<lambda>x. displayName x \<notin> set (map displayName (this_connections m3)))
                     connectionsFromUserConfig;
                 m4 = m3\<lparr>this_connections := this_connections m3 @ newConnectionsFromWorkspace\<rparr>;
                 m5 = m4\<lparr>this_initialized := True\<rparr>
             in case updateUserWorkspaceConfig cfg m5 of
                  None \<Rightarrow> None
                | Some fx \<Rightarrow> Some \<lparr>result = Inr (), manager_after = m5, effects = fx\<rparr>)"

subsection \<open>Activating\<close>

definition backslash :: string where
  "backslash = [CHR 0x5C]"

definition codeRegularExpression :: string where
  "codeRegularExpression =
     ''^(# COMMAND ----------|#'' @ backslash @ ''s*%%|#'' @ backslash @ ''s*'' @ backslash
     @ ''<codecell'' @ backslash @ ''>|#'' @ backslash @ ''s*In'' @ backslash @ ''['' @ backslash
     @ ''d*?'' @ backslash @ '']|#'' @ backslash @ ''s*In'' @ backslash @ ''[ '' @ backslash
     @ ''])''"

definition not_found_message :: "string \<Rightarrow> string" where
  "not_found_message name =
     ''Connection with name  '' @ quoted name @ '' could not be found!''"

text \<open>
  \<open>activateConnection\<close>. The test \<open>filteredConnections.length == 1\<close> followed by
  \<open>filteredConnections[0]\<close> is the pattern of a one-element list; \<open>this.ActiveConnection\<close>
  is then the connection just assigned.
\<close>

definition activateConnection :: "manager \<Rightarrow> string \<Rightarrow> DatabricksConnection outcome option" where
  "activateConnection m name =
     (case Connections m of
        None \<Rightarrow> None
      | Some cs \<Rightarrow>
          let filteredConnections = filter (\<lambda>x. displayName x = name) cs
          in case filteredConnections of
               [c] \<Rightarrow>
                 let m1 = m\<lparr>this_activeConnection := Some c\<rparr>;
                     m2 = m1\<lparr>this_workspaceConfig :=
                              (this_workspaceConfig m1)\<lparr>lastActiveConnection := Some name\<rparr>\<rparr>
                 in Some \<lparr>result = Inr c,
                          manager_after = m2,
                          effects =
                            [DatabricksApiService_initialize c]
                            @ updateWorkspaceConfig m2
                            @ [ConfigurationUpdate ''python.dataScience.codeRegularExpression''
                                 (if useCodeCells c then StringValue codeRegularExpression
                                  else undefined_value)
                                 Workspace]\<rparr>
             | _ \<Rightarrow>
                 Some \<lparr>result = Inl (Error (not_found_message name)),
                       manager_after = m,
                       effects = []\<rparr>)"

subsection \<open>Notions used in the statements about the manager\<close>

text \<open>
  The workspace configuration as \<open>loadConnections\<close> holds it after its first step: the
  one read from the workspace scope, with a fresh \<open>workspaceGuid\<close> when it had none.
\<close>

definition loaded_workspaceConfig :: "manager_env \<Rightarrow> Configuration \<Rightarrow> iWorkspaceConfiguration" where
  "loaded_workspaceConfig env cfg =
     (if workspaceGuid (databricks_workspaceConfiguration cfg) = None
      then (databricks_workspaceConfiguration cfg)\<lparr>workspaceGuid := Some (newGuid env)\<rparr>
      else databricks_workspaceConfiguration cfg)"

text \<open>The entries of the global list that carry the guid of the current workspace.\<close>

definition matching_entries :: "manager_env \<Rightarrow> Configuration \<Rightarrow> iUserWorkspaceConfiguration list" where
  "matching_entries env cfg =
     filter (\<lambda>x. workspaceGuid (workspaceConfig x) = workspaceGuid (loaded_workspaceConfig env cfg))
       (databricks_userWorkspaceConfigurations cfg)"

text \<open>The valid connections of those entries: the persisted source.\<close>

definition persisted_source :: "manager_env \<Rightarrow> Configuration \<Rightarrow> DatabricksConnection list" where
  "persisted_source env cfg = validated env (concat (map connections (matching_entries env cfg)))"

text \<open>The default connection as a list: empty when it is absent or its name is taken.\<close>

definition default_source :: "manager_env \<Rightarrow> Configuration \<Rightarrow> DatabricksConnection list" where
  "default_source env cfg =
     (case getDefaultConnectionFromWorkspace env cfg of
        None \<Rightarrow> []
      | Some d \<Rightarrow>
          if displayName d \<in> set (map displayName (getConnectionsFromWorkspace env cfg)) then []
          else [d])"

text \<open>
  The three sources in the order of \<open>loadConnections\<close>: the persisted connections are
  filtered against the names of the first two sources.
\<close>

definition merged_connections :: "manager_env \<Rightarrow> Configuration \<Rightarrow> DatabricksConnection list" where
  "merged_connections env cfg =
     getConnectionsFromWorkspace env cfg @ default_source env cfg
     @ filter (\<lambda>x. displayName x
                 \<notin> set (map displayName (getConnectionsFromWorkspace env cfg @ default_source env cfg)))
         (persisted_source env cfg)"

text \<open>Recognisers of effects.\<close>

fun updates_key :: "string \<Rightarrow> ConfigurationTarget \<Rightarrow> effect \<Rightarrow> bool" where
  "updates_key k t (ConfigurationUpdate k' v t') = (k' = k \<and> t' = t)"
| "updates_key k t (DatabricksApiService_initialize c) = False"

fun updates_target :: "ConfigurationTarget \<Rightarrow> effect \<Rightarrow> bool" where
  "updates_target t (ConfigurationUpdate k' v t') = (t' = t)"
| "updates_target t (DatabricksApiService_initialize c) = False"

fun written_value :: "effect \<Rightarrow> config_value" where
  "written_value (ConfigurationUpdate k v t) = v"
| "written_value (DatabricksApiService_initialize c) = undefined_value"

fun is_initialize :: "effect \<Rightarrow> bool" where
  "is_initialize (DatabricksApiService_initialize c) = True"
| "is_initialize (ConfigurationUpdate k v t) = False"

subsection \<open>The merge as the specification words it\<close>

text \<open>
  The specification appends each persisted connection whose \<open>displayName\<close> is not present
  in the set accumulated so far, the persisted connections appended before it included.
\<close>

fun spec_append_new :: "DatabricksConnection list \<Rightarrow> DatabricksConnection list \<Rightarrow> DatabricksConnection list" where
  "spec_append_new acc [] = acc"
| "spec_append_new acc (x # xs) =
     (if displayName x \<in> set (map displayName acc) then spec_append_new acc xs
      else spec_append_new (acc @ [x]) xs)"

definition spec_merge ::
    "DatabricksConnection list \<Rightarrow> DatabricksConnection option \<Rightarrow> DatabricksConnection list
       \<Rightarrow> DatabricksConnection list" where
  "spec_merge explicit defaultCon persisted =
     spec_append_new
       (case defaultCon of
          None \<Rightarrow> explicit
        | Some d \<Rightarrow>
            if displayName d \<in> set (map displayName explicit) then explicit else explicit @ [d])
       persisted"

section \<open>Example inputs\<close>

subsection \<open>Job runs\<close>

text \<open>
  An instance of the parameters: numbers that are a whole number of thousandths are
  printed the way JavaScript prints them, \<open>trimChar\<close> removes the character from both
  ends of the string.
\<close>

fun show_nat :: "nat \<Rightarrow> string" where
  "show_nat n = (if n < 10 then [digit n] else show_nat (n div 10) @ [digit n])"

definition show_thousandths :: "nat \<Rightarrow> string" where
  "show_thousandths k =
     show_nat (k div 1000)
     @ (if k mod 1000 = 0 then []
        else ''.'' @ rev (dropWhile (\<lambda>c. c = CHR ''0'') (rev (pad3 (k mod 1000)))))"

definition example_js_env :: js_env where
  "example_js_env =
     \<lparr>Number_toString = (\<lambda>q. show_thousandths (nat \<lfloor>q * 1000\<rfloor>)),
      JSON_stringify = (\<lambda>ps. ''{}''),
      trimChar = (\<lambda>s c. rev (dropWhile (\<lambda>x. [x] = c) (rev (dropWhile (\<lambda>x. [x] = c) s)))),
      Date_now = 60000\<rparr>"

text \<open>
  A succeeded run with the timings start 0, setup 1000, execution 2000 and cleanup 500
  milliseconds, whose record carries a notebook payload and a JAR payload.
\<close>

definition example_run :: iDatabricksJobRun where
  "example_run =
     \<lparr>job_id = 7, run_id = 42, run_name = ''nightly'',
      run_state = \<lparr>life_cycle_state = ''TERMINATED'', result_state = Some ''SUCCESS''\<rparr>,
      task = \<lparr>notebook_task =
                Some \<lparr>notebook_path = Some ''/etl/load'', revision_timestamp = Some 5,
                      base_parameters = Some []\<rparr>,
              spark_jar_task =
                Some \<lparr>jar_uri = Some ''dbfs:/jars/etl.jar'', main_class_name = Some ''etl.Main'',
                      jar_parameters = Some [''a'', ''b'']\<rparr>,
              spark_python_task = None,
              spark_submit_task = None\<rparr>,
      start_time = 0, setup_duration = 1000, execution_duration = 2000,
      cleanup_duration = 500, run_page_url = ''https://example.invalid/run/42''\<rparr>"

definition with_result_state :: "string option \<Rightarrow> iDatabricksJobRun \<Rightarrow> iDatabricksJobRun" where
  "with_result_state rs r = r\<lparr>run_state := (run_state r)\<lparr>result_state := rs\<rparr>\<rparr>"



subsection \<open>Connections and configurations\<close>

text \<open>
  An instance of the collaborators: the constructor copies the fields, \<open>validate\<close> asks
  for a name and a URL, the next guid is \<open>guid-1\<close>.
\<close>

definition example_manager_env :: manager_env where
  "example_manager_env =
     \<lparr>newDatabricksConnection = (\<lambda>con. con),
      validate = (\<lambda>c. displayName c \<noteq> [] \<and> apiRootUrl c \<noteq> []),
      newGuid = ''guid-1''\<rparr>"

definition example_connection :: "string \<Rightarrow> string \<Rightarrow> iDatabricksConnection" where
  "example_connection name url =
     \<lparr>displayName = name, cloudProvider = ''Azure'', apiRootUrl = url,
      personalAccessToken = ''dapi'', localSyncFolder = ''/sync'', exportFormats = [],
      useCodeCells = False\<rparr>"

text \<open>The manager as the constructor hands it to \<open>loadConnections\<close>.\<close>

definition new_manager :: manager where
  "new_manager =
     \<lparr>this_workspaceConfig = \<lparr>workspaceGuid = None, lastActiveConnection = None\<rparr>,
      this_connections = [], this_activeConnection = None, this_initialized = False\<rparr>"

definition workspace_1 :: iWorkspaceConfiguration where
  "workspace_1 = \<lparr>workspaceGuid = Some ''ws-1'', lastActiveConnection = None\<rparr>"

definition workspace_2 :: iWorkspaceConfiguration where
  "workspace_2 = \<lparr>workspaceGuid = Some ''ws-2'', lastActiveConnection = Some ''Z''\<rparr>"

text \<open>
  The example of the specification: the explicit list holds \<open>A\<close>, the persisted entry of
  the workspace holds another \<open>A\<close> and \<open>B\<close>; no default connection; the global list also
  holds the entry of a second workspace.
\<close>

definition overlap_configuration :: Configuration where
  "overlap_configuration =
     \<lparr>databricks_workspaceConfiguration = workspace_1,
      databricks_connections = [example_connection ''A'' ''https://explicit''],
      databricks_connection_default = example_connection [] [],
      databricks_userWorkspaceConfigurations =
        [\<lparr>workspaceConfig = workspace_2,
          connections = [example_connection ''Z'' ''https://other'']\<rparr>,
         \<lparr>workspaceConfig = workspace_1,
          connections = [example_connection ''A'' ''https://persisted'',
                         example_connection ''B'' ''https://persisted'']\<rparr>]\<rparr>"

text \<open>A persisted entry that holds the name \<open>A\<close> twice, and no other source.\<close>

definition duplicate_configuration :: Configuration where
  "duplicate_configuration =
     \<lparr>databricks_workspaceConfiguration = workspace_1,
      databricks_connections = [],
      databricks_connection_default = example_connection [] [],
      databricks_userWorkspaceConfigurations =
        [\<lparr>workspaceConfig = workspace_1,
          connections = [example_connection ''A'' ''https://first'',
                         example_connection ''A'' ''https://second'']\<rparr>]\<rparr>"

text \<open>A workspace without guid, with one explicit connection and an empty global list.\<close>

definition fresh_configuration :: Configuration where
  "fresh_configuration =
     \<lparr>databricks_workspaceConfiguration = \<lparr>workspaceGuid = None, lastActiveConnection = None\<rparr>,
      databricks_connections = [example_connection ''A'' ''https://explicit''],
      databricks_connection_default = example_connection [] [],
      databricks_userWorkspaceConfigurations = []\<rparr>"

text \<open>Two entries of the global list with the guid of the current workspace.\<close>

definition corrupt_configuration :: Configuration where
  "corrupt_configuration =
     \<lparr>databricks_workspaceConfiguration = workspace_1,
      databricks_connections = [example_connection ''A'' ''https://explicit''],
      databricks_connection_default = example_connection [] [],
      databricks_userWorkspaceConfigurations =
        [\<lparr>workspaceConfig = workspace_1, connections = []\<rparr>,
         \<lparr>workspaceConfig = workspace_1,
          connections = [example_connection ''B'' ''https://persisted'']\<rparr>]\<rparr>"

text \<open>A loaded manager with the connections \<open>A\<close>, \<open>B\<close>, \<open>B\<close>, \<open>C\<close>, and \<open>A\<close> active.\<close>

definition loaded_manager :: manager where
  "loaded_manager =
     \<lparr>this_workspaceConfig = \<lparr>workspaceGuid = Some ''ws-1'', lastActiveConnection = Some ''A''\<rparr>,
      this_connections = [example_connection ''A'' ''https://a'',
                          example_connection ''B'' ''https://b1'',
                          example_connection ''B'' ''https://b2'',
                          example_connection ''C'' ''https://c''],
      this_activeConnection = Some (example_connection ''A'' ''https://a''),
      this_initialized = True\<rparr>"

section \<open>Properties of job runs\<close>

text \<open>
  Claim C7. For every job-run record the state bucket is \<open>succeeded\<close> when
  \<open>result_state\<close> is \<open>SUCCESS\<close>, \<open>failed\<close> when it is one of \<open>FAILED\<close>, \<open>CANCELED\<close>,
  \<open>TIMEDOUT\<close>, and \<open>running\<close> for every other value, the unset one included.
\<close>

theorem state_bucket:
  "(result_state (run_state r) = Some ''SUCCESS'' \<longrightarrow> state r = ''succeeded'')
   \<and> (result_state (run_state r) \<in> {Some ''FAILED'', Some ''CANCELED'', Some ''TIMEDOUT''}
        \<longrightarrow> state r = ''failed'')
   \<and> (result_state (run_state r)
          \<notin> {Some ''SUCCESS'', Some ''FAILED'', Some ''CANCELED'', Some ''TIMEDOUT''}
        \<longrightarrow> state r = ''running'')"
  by (simp add: state_def)

text \<open>
  The three examples of the specification, and the empty string: \<open>SUCCESS\<close>,
  \<open>CANCELED\<close>, unset.
\<close>

theorem state_bucket_witness:
  "state example_run = ''succeeded''
   \<and> state (with_result_state (Some ''CANCELED'') example_run) = ''failed''
   \<and> state (with_result_state None example_run) = ''running''
   \<and> state (with_result_state (Some []) example_run) = ''running''"
  using state_bucket [of example_run]
    state_bucket [of "with_result_state (Some ''CANCELED'') example_run"]
    state_bucket [of "with_result_state None example_run"]
    state_bucket [of "with_result_state (Some []) example_run"]
  by (simp add: example_run_def with_result_state_def)

subsection \<open>The task getters on the examples\<close>






text \<open>
  Claim C9. Whatever the outcome of the remote cancel call (fulfilled, rejected or never
  settled, early or late), the calls of \<open>stop\<close> other than the notifications are the
  cancel request, the wait of 10000 milliseconds and then one refresh command, in this
  order: a rejected cancel call does not suppress the refresh.
\<close>

theorem stop_refresh:
  "filter (\<lambda>e. \<not> is_notification e) (stop env r outcome) =
     [CancelJunJob (run_id r), HelperWait 10000, ExecuteCommand ''databricksJobs.refresh'' False]"
  by (cases outcome)
     (simp_all add: stop_def handlers_at_def on_fulfilled_def on_rejected_def job_run_id_def)

text \<open>A cancel call that is rejected while \<open>stop\<close> waits.\<close>

theorem stop_refresh_witness:
  "stop example_js_env example_run (Rejected ''timeout'' DuringWait) =
     [CancelJunJob 42, ShowErrorMessage ''ERROR: timeout'', HelperWait 10000,
      ExecuteCommand ''databricksJobs.refresh'' False]
   \<and> filter (\<lambda>e. \<not> is_notification e)
         (stop example_js_env example_run (Rejected ''timeout'' DuringWait)) =
       [CancelJunJob (run_id example_run), HelperWait 10000,
        ExecuteCommand ''databricksJobs.refresh'' False]"
  using stop_refresh [of example_js_env example_run "Rejected ''timeout'' DuringWait"]
  by (simp add: stop_def handlers_at_def on_rejected_def job_run_id_def example_run_def)




section \<open>Properties of the connection manager\<close>

subsection \<open>The getters and the steps of loading\<close>

lemma Connections_initialized:
  "this_initialized m \<Longrightarrow> Connections m = Some (this_connections m)"
  by (subst Connections.simps) simp

lemma Connections_returns:
  "Connections m = Some cs \<Longrightarrow> this_initialized m"
  by (rule Connections.raw_induct [where P = "\<lambda>m cs. this_initialized m"])
     (simp_all split: if_splits)

text \<open>On a manager that is not initialised the getter, and with it the activation, does not return.\<close>

lemma Connections_uninitialized:
  "\<not> this_initialized m \<Longrightarrow> Connections m = None"
  using Connections_returns [of m] by (cases "Connections m") auto

lemma activateConnection_uninitialized:
  "\<not> this_initialized m \<Longrightarrow> activateConnection m name = None"
  by (simp add: activateConnection_def Connections_uninitialized)

lemma validated_filter:
  "validated env cons = filter (validate env) (map (newDatabricksConnection env) cons)"
  by (induction cons) (simp_all add: Let_def)

lemma CurrentWorkspaceConfiguration_initialized:
  "this_initialized m \<Longrightarrow>
     CurrentWorkspaceConfiguration m =
       Some \<lparr>workspaceConfig = this_workspaceConfig m, connections = this_connections m\<rparr>"
  by (simp add: CurrentWorkspaceConfiguration_def Connections_initialized)

lemma updateUserWorkspaceConfig_initialized:
  "this_initialized m \<Longrightarrow>
     updateUserWorkspaceConfig cfg m =
       Some ([ConfigurationUpdate ''databricks.userWorkspaceConfigurations''
                (UserWorkspaceConfigurationsValue
                   (filter (\<lambda>x. workspaceGuid (workspaceConfig x)
                                    \<noteq> workspaceGuid (this_workspaceConfig m))
                      (databricks_userWorkspaceConfigurations cfg)
                    @ [\<lparr>workspaceConfig = this_workspaceConfig m,
                         connections = this_connections m\<rparr>]))
                Global]
             @ cleanConnectionsFromConfig @ cleanDefaultConnectionFromConfig)"
  by (simp add: updateUserWorkspaceConfig_def CurrentWorkspaceConfiguration_initialized
        AllUserWorkspaceConfigurations_def)

lemma getConnectionsFromUserConfig_unique:
  assumes "length (filter (\<lambda>x. workspaceGuid (workspaceConfig x) = workspaceGuid (this_workspaceConfig m))
                    (databricks_userWorkspaceConfigurations cfg)) \<le> 1"
  shows "getConnectionsFromUserConfig env cfg m =
           Inr (validated env (concat (map connections
                  (filter (\<lambda>x. workspaceGuid (workspaceConfig x) = workspaceGuid (this_workspaceConfig m))
                    (databricks_userWorkspaceConfigurations cfg)))))"
proof (cases "filter (\<lambda>x. workspaceGuid (workspaceConfig x) = workspaceGuid (this_workspaceConfig m))
                    (databricks_userWorkspaceConfigurations cfg)")
  case Nil
  then show ?thesis
    by (simp add: getConnectionsFromUserConfig_def CurrentUserWorkspaceConfiguration_def
          AllUserWorkspaceConfigurations_def)
next
  case (Cons x xs)
  with assms have "xs = []" by simp
  with Cons show ?thesis
    by (simp add: getConnectionsFromUserConfig_def CurrentUserWorkspaceConfiguration_def
          AllUserWorkspaceConfigurations_def)
qed

lemma getConnectionsFromUserConfig_duplicate:
  assumes "1 < length (filter (\<lambda>x. workspaceGuid (workspaceConfig x) = workspaceGuid (this_workspaceConfig m))
                    (databricks_userWorkspaceConfigurations cfg))"
  shows "getConnectionsFromUserConfig env cfg m = Inl (Error duplicate_guid_message)"
proof -
  obtain x y ys where
    "filter (\<lambda>x. workspaceGuid (workspaceConfig x) = workspaceGuid (this_workspaceConfig m))
        (databricks_userWorkspaceConfigurations cfg) = x # y # ys"
    using assms
    by (cases "filter (\<lambda>x. workspaceGuid (workspaceConfig x) = workspaceGuid (this_workspaceConfig m))
                  (databricks_userWorkspaceConfigurations cfg)" rule: list.exhaust)
       (auto simp: neq_Nil_conv)
  then show ?thesis
    by (simp add: getConnectionsFromUserConfig_def CurrentUserWorkspaceConfiguration_def
          AllUserWorkspaceConfigurations_def)
qed

lemma loadConnections_unique:
  assumes "length (matching_entries env cfg) \<le> 1"
  shows "loadConnections env cfg m =
     Some \<lparr>result = Inr (),
           manager_after =
             m\<lparr>this_workspaceConfig := loaded_workspaceConfig env cfg,
               this_connections := merged_connections env cfg,
               this_initialized := True\<rparr>,
           effects =
             [ConfigurationUpdate ''databricks.userWorkspaceConfigurations''
                (UserWorkspaceConfigurationsValue
                   (filter (\<lambda>x. workspaceGuid (workspaceConfig x)
                                    \<noteq> workspaceGuid (loaded_workspaceConfig env cfg))
                      (databricks_userWorkspaceConfigurations cfg)
                    @ [\<lparr>workspaceConfig = loaded_workspaceConfig env cfg,
                         connections = merged_connections env cfg\<rparr>]))
                Global]
             @ cleanConnectionsFromConfig @ cleanDefaultConnectionFromConfig\<rparr>"
proof -
  let ?m2 = "m\<lparr>this_workspaceConfig := loaded_workspaceConfig env cfg,
               this_connections := getConnectionsFromWorkspace env cfg\<rparr>"
  have user: "getConnectionsFromUserConfig env cfg ?m2 = Inr (persisted_source env cfg)"
    using assms getConnectionsFromUserConfig_unique [of ?m2 cfg env]
    by (simp add: matching_entries_def persisted_source_def)
  have eq: "(if workspaceGuid (databricks_workspaceConfiguration cfg) = None
             then (databricks_workspaceConfiguration cfg)\<lparr>workspaceGuid := Some (newGuid env)\<rparr>
             else databricks_workspaceConfiguration cfg) = loaded_workspaceConfig env cfg"
    by (simp add: loaded_workspaceConfig_def)
  show ?thesis
  proof (cases "getDefaultConnectionFromWorkspace env cfg")
    case None
    then have "default_source env cfg = []"
      by (simp add: default_source_def)
    with None user show ?thesis
      unfolding loadConnections_def Let_def eq
      by (simp add: updateUserWorkspaceConfig_initialized merged_connections_def)
  next
    case (Some d)
    show ?thesis
    proof (cases "displayName d \<in> set (map displayName (getConnectionsFromWorkspace env cfg))")
      case True
      with Some have "default_source env cfg = []"
        by (simp add: default_source_def)
      with Some True user show ?thesis
        unfolding loadConnections_def Let_def eq
        by (simp add: updateUserWorkspaceConfig_initialized merged_connections_def)
    next
      case False
      with Some have "default_source env cfg = [d]"
        by (simp add: default_source_def)
      with Some False user show ?thesis
        unfolding loadConnections_def Let_def eq
        by (simp add: updateUserWorkspaceConfig_initialized merged_connections_def)
    qed
  qed
qed

lemma loadConnections_duplicate:
  assumes "1 < length (matching_entries env cfg)"
  shows "loadConnections env cfg m =
     Some \<lparr>result = Inl (Error duplicate_guid_message),
           manager_after =
             m\<lparr>this_workspaceConfig := loaded_workspaceConfig env cfg,
               this_connections := getConnectionsFromWorkspace env cfg\<rparr>,
           effects = []\<rparr>"
proof -
  let ?m2 = "m\<lparr>this_workspaceConfig := loaded_workspaceConfig env cfg,
               this_connections := getConnectionsFromWorkspace env cfg\<rparr>"
  have user: "getConnectionsFromUserConfig env cfg ?m2 = Inl (Error duplicate_guid_message)"
    using assms getConnectionsFromUserConfig_duplicate [of ?m2 cfg env]
    by (simp add: matching_entries_def)
  have eq: "(if workspaceGuid (databricks_workspaceConfiguration cfg) = None
             then (databricks_workspaceConfiguration cfg)\<lparr>workspaceGuid := Some (newGuid env)\<rparr>
             else databricks_workspaceConfiguration cfg) = loaded_workspaceConfig env cfg"
    by (simp add: loaded_workspaceConfig_def)
  show ?thesis
    unfolding loadConnections_def Let_def eq
    using user
    by simp
qed

lemma activateConnection_found:
  assumes "this_initialized m"
    and "filter (\<lambda>x. displayName x = name) (this_connections m) = [c]"
  shows "activateConnection m name =
     Some \<lparr>result = Inr c,
           manager_after =
             m\<lparr>this_activeConnection := Some c,
               this_workspaceConfig := (this_workspaceConfig m)\<lparr>lastActiveConnection := Some name\<rparr>\<rparr>,
           effects =
             [DatabricksApiService_initialize c,
              ConfigurationUpdate ''databricks.workspaceConfiguration''
                (WorkspaceConfigurationValue
                   ((this_workspaceConfig m)\<lparr>lastActiveConnection := Some name\<rparr>))
                Workspace,
              ConfigurationUpdate ''python.dataScience.codeRegularExpression''
                (if useCodeCells c then StringValue codeRegularExpression else undefined_value)
                Workspace]\<rparr>"
  using assms
  by (simp add: activateConnection_def Connections_initialized updateWorkspaceConfig_def)

lemma activateConnection_not_found:
  assumes "this_initialized m"
    and "length (filter (\<lambda>x. displayName x = name) (this_connections m)) \<noteq> 1"
  shows "activateConnection m name =
     Some \<lparr>result = Inl (Error (not_found_message name)), manager_after = m, effects = []\<rparr>"
proof (cases "filter (\<lambda>x. displayName x = name) (this_connections m)")
  case Nil
  with assms(1) show ?thesis
    by (simp add: activateConnection_def Connections_initialized)
next
  case (Cons x xs)
  with assms(2) obtain y ys where "xs = y # ys"
    by (cases xs) auto
  with Cons assms(1) show ?thesis
    by (simp add: activateConnection_def Connections_initialized)
qed

lemma example_validated [simp]:
  "validated example_manager_env cons =
     filter (\<lambda>c. displayName c \<noteq> [] \<and> apiRootUrl c \<noteq> []) cons"
  by (simp add: validated_filter example_manager_env_def)

lemma example_default_absent:
  "databricks_connection_default cfg = example_connection [] [] \<Longrightarrow>
     getDefaultConnectionFromWorkspace example_manager_env cfg = None"
  by (simp add: getDefaultConnectionFromWorkspace_def example_manager_env_def
        example_connection_def)

text \<open>
  Claim C1 as the specification states it does not hold: the persisted connections are
  filtered against the list as it stands before any of them is appended, so two persisted
  connections with the same new name are both kept, where the merge of the specification
  keeps the first only.
\<close>

theorem load_keeps_persisted_duplicates:
  "map_option (this_connections \<circ> manager_after)
       (loadConnections example_manager_env duplicate_configuration new_manager) =
     Some [example_connection ''A'' ''https://first'', example_connection ''A'' ''https://second'']
   \<and> spec_merge (getConnectionsFromWorkspace example_manager_env duplicate_configuration)
         (getDefaultConnectionFromWorkspace example_manager_env duplicate_configuration)
         (persisted_source example_manager_env duplicate_configuration) =
       [example_connection ''A'' ''https://first'']"
proof -
  have d: "getDefaultConnectionFromWorkspace example_manager_env duplicate_configuration = None"
    by (rule example_default_absent) (simp add: duplicate_configuration_def)
  have w: "loaded_workspaceConfig example_manager_env duplicate_configuration = workspace_1"
    by (simp add: loaded_workspaceConfig_def duplicate_configuration_def workspace_1_def)
  have e: "getConnectionsFromWorkspace example_manager_env duplicate_configuration = []"
    by (simp add: getConnectionsFromWorkspace_def duplicate_configuration_def
          del: validated.simps)
  have me: "matching_entries example_manager_env duplicate_configuration =
      [\<lparr>workspaceConfig = workspace_1,
        connections = [example_connection ''A'' ''https://first'',
                       example_connection ''A'' ''https://second'']\<rparr>]"
    by (simp add: matching_entries_def w) (simp add: duplicate_configuration_def)
  have p: "persisted_source example_manager_env duplicate_configuration =
      [example_connection ''A'' ''https://first'', example_connection ''A'' ''https://second'']"
    by (simp add: persisted_source_def me del: validated.simps)
       (simp add: example_connection_def)
  have m: "merged_connections example_manager_env duplicate_configuration =
      [example_connection ''A'' ''https://first'', example_connection ''A'' ''https://second'']"
    by (simp add: merged_connections_def default_source_def d e p)
  have "length (matching_entries example_manager_env duplicate_configuration) \<le> 1"
    by (simp add: me)
  from loadConnections_unique [OF this, of new_manager] show ?thesis
    by (simp add: m d e p spec_merge_def) (simp add: example_connection_def)
qed

lemma filter_name_absent:
  "n \<notin> set (map displayName xs) \<Longrightarrow> filter (\<lambda>x. displayName x = n) xs = []"
  by (induction xs) auto

lemma filter_name_merged_explicit:
  assumes "n \<in> set (map displayName E)"
  shows "filter (\<lambda>x. displayName x = n)
           (E @ D @ filter (\<lambda>x. displayName x \<notin> set (map displayName (E @ D))) P)
         = filter (\<lambda>x. displayName x = n) (E @ D)"
proof -
  have "filter (\<lambda>x. displayName x = n)
          (filter (\<lambda>x. displayName x \<notin> set (map displayName (E @ D))) P) = []"
    using assms by (auto simp: filter_empty_conv)
  then show ?thesis by simp
qed

text \<open>
  Claim C1, amended. For every configuration whose global list holds at most one entry
  for the workspace, \<open>loadConnections\<close> returns and the connections are the valid
  connections of the explicit list, then the default connection if it is present and its
  \<open>displayName\<close> is not in the explicit list, then each valid persisted connection whose
  \<open>displayName\<close> is the name of neither: a fixed snapshot of the first two sources.
  A name of the explicit list is held by connections of the explicit list only, and the
  name of an appended default connection by that connection only.
\<close>

theorem load_merge:
  assumes "length (matching_entries env cfg) \<le> 1"
  shows "\<exists>out. loadConnections env cfg m = Some out \<and> result out = Inr ()
     \<and> this_connections (manager_after out) =
         getConnectionsFromWorkspace env cfg @ default_source env cfg
         @ filter (\<lambda>x. displayName x
                     \<notin> set (map displayName
                              (getConnectionsFromWorkspace env cfg @ default_source env cfg)))
             (persisted_source env cfg)
     \<and> getConnectionsFromWorkspace env cfg =
         filter (validate env) (map (newDatabricksConnection env) (databricks_connections cfg))
     \<and> (\<forall>n \<in> set (map displayName (getConnectionsFromWorkspace env cfg)).
           filter (\<lambda>x. displayName x = n) (this_connections (manager_after out)) =
           filter (\<lambda>x. displayName x = n) (getConnectionsFromWorkspace env cfg))
     \<and> (\<forall>d. default_source env cfg = [d] \<longrightarrow>
           filter (\<lambda>x. displayName x = displayName d) (this_connections (manager_after out)) = [d])"
proof -
  let ?E = "getConnectionsFromWorkspace env cfg"
  let ?D = "default_source env cfg"
  let ?P = "persisted_source env cfg"
  let ?R = "?E @ ?D @ filter (\<lambda>x. displayName x \<notin> set (map displayName (?E @ ?D))) ?P"
  have D_new: "\<And>d. ?D = [d] \<Longrightarrow> displayName d \<notin> set (map displayName ?E)"
    by (auto simp: default_source_def split: option.splits if_splits)
  have D_name: "\<And>x. x \<in> set ?D \<Longrightarrow> displayName x \<notin> set (map displayName ?E)"
    by (auto simp: default_source_def split: option.splits if_splits)
  have explicit: "filter (\<lambda>x. displayName x = n) ?R = filter (\<lambda>x. displayName x = n) ?E"
    if "n \<in> set (map displayName ?E)" for n
  proof -
    have "filter (\<lambda>x. displayName x = n) ?D = []"
    proof (cases "?D")
      case Nil
      then show ?thesis by simp
    next
      case (Cons d ds)
      with D_name [of d] that have "displayName d \<noteq> n" by auto
      moreover from Cons have "ds = []"
        by (auto simp: default_source_def split: option.splits if_splits)
      ultimately show ?thesis using Cons by simp
    qed
    with filter_name_merged_explicit [OF that, of ?D ?P] show ?thesis by simp
  qed
  have dflt: "filter (\<lambda>x. displayName x = displayName d) ?R = [d]" if "?D = [d]" for d
  proof -
    have 1: "filter (\<lambda>x. displayName x = displayName d) ?E = []"
      using D_new [OF that] by (rule filter_name_absent)
    have 2: "filter (\<lambda>x. displayName x = displayName d)
               (filter (\<lambda>x. displayName x \<notin> set (map displayName (?E @ ?D))) ?P) = []"
      using that by (auto simp: filter_empty_conv)
    show ?thesis
      using 1 2 that by simp
  qed
  obtain out where out: "loadConnections env cfg m = Some out" "result out = Inr ()"
      "this_connections (manager_after out) = ?R"
    using loadConnections_unique [OF assms, of m] by (simp add: merged_connections_def)
  have E: "?E = filter (validate env) (map (newDatabricksConnection env) (databricks_connections cfg))"
    by (simp only: getConnectionsFromWorkspace_def validated_filter)
  show ?thesis
  proof (intro exI [of _ out] conjI ballI allI impI)
    show "loadConnections env cfg m = Some out" by (rule out(1))
    show "result out = Inr ()" by (rule out(2))
    show "this_connections (manager_after out) = ?R" by (rule out(3))
    show "?E = filter (validate env) (map (newDatabricksConnection env) (databricks_connections cfg))"
      by (rule E)
    show "filter (\<lambda>x. displayName x = n) (this_connections (manager_after out)) =
          filter (\<lambda>x. displayName x = n) ?E" if "n \<in> set (map displayName ?E)" for n
      using explicit [OF that] by (simp only: out(3))
    show "filter (\<lambda>x. displayName x = displayName d) (this_connections (manager_after out)) = [d]"
      if "?D = [d]" for d
      using dflt [OF that] by (simp only: out(3))
  qed
qed

lemma overlap_matching:
  "matching_entries example_manager_env overlap_configuration =
     [\<lparr>workspaceConfig = workspace_1,
       connections = [example_connection ''A'' ''https://persisted'',
                      example_connection ''B'' ''https://persisted'']\<rparr>]"
  by (simp add: matching_entries_def loaded_workspaceConfig_def overlap_configuration_def
        workspace_1_def workspace_2_def)

lemma overlap_sources:
  "getConnectionsFromWorkspace example_manager_env overlap_configuration =
     [example_connection ''A'' ''https://explicit'']"
  "default_source example_manager_env overlap_configuration = []"
  "persisted_source example_manager_env overlap_configuration =
     [example_connection ''A'' ''https://persisted'', example_connection ''B'' ''https://persisted'']"
proof -
  show "getConnectionsFromWorkspace example_manager_env overlap_configuration =
     [example_connection ''A'' ''https://explicit'']"
    by (simp add: getConnectionsFromWorkspace_def overlap_configuration_def validated_filter
          example_manager_env_def example_connection_def del: validated.simps)
  have "getDefaultConnectionFromWorkspace example_manager_env overlap_configuration = None"
    by (rule example_default_absent) (simp add: overlap_configuration_def)
  then show "default_source example_manager_env overlap_configuration = []"
    by (simp add: default_source_def)
  show "persisted_source example_manager_env overlap_configuration =
     [example_connection ''A'' ''https://persisted'', example_connection ''B'' ''https://persisted'']"
    unfolding persisted_source_def overlap_matching
    by (simp add: validated_filter example_manager_env_def example_connection_def
          del: validated.simps)
qed

text \<open>
  The example of the specification: the explicit list holds \<open>A\<close>, the persisted entry
  \<open>A\<close> and \<open>B\<close>; the result is the explicit \<open>A\<close> and the persisted \<open>B\<close>.
\<close>

theorem load_merge_witness:
  "length (matching_entries example_manager_env overlap_configuration) \<le> 1
   \<and> map_option (this_connections \<circ> manager_after)
         (loadConnections example_manager_env overlap_configuration new_manager) =
       Some [example_connection ''A'' ''https://explicit'',
             example_connection ''B'' ''https://persisted'']"
proof -
  have u: "length (matching_entries example_manager_env overlap_configuration) \<le> 1"
    by (simp add: overlap_matching)
  from load_merge [OF u, of new_manager] obtain out where
    "loadConnections example_manager_env overlap_configuration new_manager = Some out"
    "this_connections (manager_after out) =
       getConnectionsFromWorkspace example_manager_env overlap_configuration
       @ default_source example_manager_env overlap_configuration
       @ filter (\<lambda>x. displayName x
                   \<notin> set (map displayName
                            (getConnectionsFromWorkspace example_manager_env overlap_configuration
                             @ default_source example_manager_env overlap_configuration)))
           (persisted_source example_manager_env overlap_configuration)"
    by blast
  then show ?thesis
    using u by (simp add: overlap_sources) (simp add: example_connection_def)
qed

lemma fresh_matching: "matching_entries example_manager_env fresh_configuration = []"
  by (simp add: matching_entries_def fresh_configuration_def)

lemma workspace_updates_clean:
  "filter (updates_key ''databricks.workspaceConfiguration'' Workspace)
     cleanConnectionsFromConfig = []"
  "filter (updates_key ''databricks.workspaceConfiguration'' Workspace)
     cleanDefaultConnectionFromConfig = []"
  by (simp_all add: cleanConnectionsFromConfig_def cleanDefaultConnectionFromConfig_def)

lemma clean_values:
  "e \<in> set (cleanConnectionsFromConfig @ cleanDefaultConnectionFromConfig) \<Longrightarrow>
     updates_target Workspace e \<and> written_value e = undefined_value"
  by (auto simp: cleanConnectionsFromConfig_def cleanDefaultConnectionFromConfig_def)

lemma clean_not_global:
  "filter (updates_target Global) cleanConnectionsFromConfig = []"
  "filter (updates_target Global) cleanDefaultConnectionFromConfig = []"
  by (simp_all add: cleanConnectionsFromConfig_def cleanDefaultConnectionFromConfig_def)

lemma clean_workspace_scope:
  "filter (updates_target Workspace) cleanConnectionsFromConfig = cleanConnectionsFromConfig"
  "filter (updates_target Workspace) cleanDefaultConnectionFromConfig =
     cleanDefaultConnectionFromConfig"
  by (simp_all add: cleanConnectionsFromConfig_def cleanDefaultConnectionFromConfig_def)

lemma clean_keys:
  "cleanConnectionsFromConfig @ cleanDefaultConnectionFromConfig =
     map (\<lambda>k. ConfigurationUpdate k undefined_value Workspace)
       [''databricks.connections'',
        ''databricks.connection.default.displayName'',
        ''databricks.connection.default.cloudProvider'',
        ''databricks.connection.default.apiRootUrl'',
        ''databricks.connection.default.personalAccessToken'',
        ''databricks.connection.default.localSyncFolder'',
        ''databricks.connection.default.databricksConnectJars'',
        ''databricks.connection.default.pythonInterpreter'',
        ''databricks.connection.default.port'',
        ''databricks.connection.default.organizationId'',
        ''databricks.connection.default.exportFormats'',
        ''databricks.connection.default.useCodeCells'']"
  by (simp add: cleanConnectionsFromConfig_def cleanDefaultConnectionFromConfig_def)

text \<open>
  Claim C2 as the specification states it does not hold: \<open>loadConnections\<close> on a
  workspace without guid generates one and issues no update of
  \<open>databricks.workspaceConfiguration\<close> at the workspace scope.
\<close>

theorem load_leaves_workspace_configuration:
  "map_option (workspaceGuid \<circ> this_workspaceConfig \<circ> manager_after)
       (loadConnections example_manager_env fresh_configuration new_manager) =
     Some (Some ''guid-1'')
   \<and> workspaceGuid (databricks_workspaceConfiguration fresh_configuration) = None
   \<and> map_option (filter (updates_key ''databricks.workspaceConfiguration'' Workspace) \<circ> effects)
         (loadConnections example_manager_env fresh_configuration new_manager) =
       Some []"
proof -
  have w: "loaded_workspaceConfig example_manager_env fresh_configuration =
      \<lparr>workspaceGuid = Some ''guid-1'', lastActiveConnection = None\<rparr>"
    by (simp add: loaded_workspaceConfig_def fresh_configuration_def example_manager_env_def)
  have c: "workspaceGuid (databricks_workspaceConfiguration fresh_configuration) = None"
    by (simp add: fresh_configuration_def)
  have "length (matching_entries example_manager_env fresh_configuration) \<le> 1"
    by (simp add: fresh_matching)
  from loadConnections_unique [OF this, of new_manager] show ?thesis
    by (simp add: workspace_updates_clean w c)
qed

text \<open>
  Claim C2, amended. \<open>loadConnections\<close> persists the workspace configuration, with its
  guid, only in the entry it writes to the global list
  \<open>databricks.userWorkspaceConfigurations\<close>. Its updates at the workspace scope are the
  twelve that clear the explicit list \<open>databricks.connections\<close> and the keys
  \<open>databricks.connection.default.*\<close>, in that order and no other: each writes
  \<open>undefined\<close> and none names \<open>databricks.workspaceConfiguration\<close>. That key is
  written at the workspace scope, with the same guid, by an \<open>activateConnection\<close> that
  finds its connection.
\<close>

theorem load_persists_guid_globally:
  assumes "length (matching_entries env cfg) \<le> 1"
  shows "\<exists>out W. loadConnections env cfg m = Some out \<and> result out = Inr ()
     \<and> workspaceGuid (this_workspaceConfig (manager_after out)) \<noteq> None
     \<and> filter (updates_key ''databricks.workspaceConfiguration'' Workspace) (effects out) = []
     \<and> (\<forall>e \<in> set (effects out). updates_target Workspace e \<longrightarrow> written_value e = undefined_value)
     \<and> filter (updates_target Workspace) (effects out) =
         cleanConnectionsFromConfig @ cleanDefaultConnectionFromConfig
     \<and> filter (updates_target Workspace) (effects out) =
         map (\<lambda>k. ConfigurationUpdate k undefined_value Workspace)
           [''databricks.connections'',
            ''databricks.connection.default.displayName'',
            ''databricks.connection.default.cloudProvider'',
            ''databricks.connection.default.apiRootUrl'',
            ''databricks.connection.default.personalAccessToken'',
            ''databricks.connection.default.localSyncFolder'',
            ''databricks.connection.default.databricksConnectJars'',
            ''databricks.connection.default.pythonInterpreter'',
            ''databricks.connection.default.port'',
            ''databricks.connection.default.organizationId'',
            ''databricks.connection.default.exportFormats'',
            ''databricks.connection.default.useCodeCells'']
     \<and> filter (updates_target Global) (effects out) =
         [ConfigurationUpdate ''databricks.userWorkspaceConfigurations''
            (UserWorkspaceConfigurationsValue W) Global]
     \<and> \<lparr>workspaceConfig = this_workspaceConfig (manager_after out),
         connections = this_connections (manager_after out)\<rparr> \<in> set W
     \<and> (\<forall>X c. filter (\<lambda>x. displayName x = X) (this_connections (manager_after out)) = [c] \<longrightarrow>
           (\<exists>act. activateConnection (manager_after out) X = Some act
              \<and> workspaceGuid (this_workspaceConfig (manager_after act)) =
                  workspaceGuid (this_workspaceConfig (manager_after out))
              \<and> filter (updates_key ''databricks.workspaceConfiguration'' Workspace) (effects act) =
                  [ConfigurationUpdate ''databricks.workspaceConfiguration''
                     (WorkspaceConfigurationValue (this_workspaceConfig (manager_after act)))
                     Workspace]))"
proof -
  let ?W = "filter (\<lambda>x. workspaceGuid (workspaceConfig x)
                           \<noteq> workspaceGuid (loaded_workspaceConfig env cfg))
              (databricks_userWorkspaceConfigurations cfg)
            @ [\<lparr>workspaceConfig = loaded_workspaceConfig env cfg,
                 connections = merged_connections env cfg\<rparr>]"
  let ?out = "\<lparr>result = Inr (),
           manager_after =
             m\<lparr>this_workspaceConfig := loaded_workspaceConfig env cfg,
               this_connections := merged_connections env cfg,
               this_initialized := True\<rparr>,
           effects =
             [ConfigurationUpdate ''databricks.userWorkspaceConfigurations''
                (UserWorkspaceConfigurationsValue ?W) Global]
             @ cleanConnectionsFromConfig @ cleanDefaultConnectionFromConfig\<rparr>"
  have load: "loadConnections env cfg m = Some ?out"
    by (rule loadConnections_unique [OF assms])
  have guid: "workspaceGuid (loaded_workspaceConfig env cfg) \<noteq> None"
    by (simp add: loaded_workspaceConfig_def)
  have act: "\<exists>act. activateConnection (manager_after ?out) X = Some act
              \<and> workspaceGuid (this_workspaceConfig (manager_after act)) =
                  workspaceGuid (this_workspaceConfig (manager_after ?out))
              \<and> filter (updates_key ''databricks.workspaceConfiguration'' Workspace) (effects act) =
                  [ConfigurationUpdate ''databricks.workspaceConfiguration''
                     (WorkspaceConfigurationValue (this_workspaceConfig (manager_after act)))
                     Workspace]"
    if "filter (\<lambda>x. displayName x = X) (this_connections (manager_after ?out)) = [c]" for X c
  proof -
    have "this_initialized (manager_after ?out)" by simp
    from activateConnection_found [OF this that] show ?thesis by simp
  qed
  show ?thesis
  proof (intro exI [of _ ?out] exI [of _ ?W] conjI ballI allI impI)
    show "loadConnections env cfg m = Some ?out" by (rule load)
    show "result ?out = Inr ()" by simp
    show "workspaceGuid (this_workspaceConfig (manager_after ?out)) \<noteq> None"
      using guid by simp
    show "filter (updates_key ''databricks.workspaceConfiguration'' Workspace) (effects ?out) = []"
      by (simp add: workspace_updates_clean)
    show "written_value e = undefined_value"
      if "e \<in> set (effects ?out)" "updates_target Workspace e" for e
      using that clean_values [of e] by auto
    show ws: "filter (updates_target Workspace) (effects ?out) =
         cleanConnectionsFromConfig @ cleanDefaultConnectionFromConfig"
      by (simp add: clean_workspace_scope)
    show "filter (updates_target Workspace) (effects ?out) =
         map (\<lambda>k. ConfigurationUpdate k undefined_value Workspace)
           [''databricks.connections'',
            ''databricks.connection.default.displayName'',
            ''databricks.connection.default.cloudProvider'',
            ''databricks.connection.default.apiRootUrl'',
            ''databricks.connection.default.personalAccessToken'',
            ''databricks.connection.default.localSyncFolder'',
            ''databricks.connection.default.databricksConnectJars'',
            ''databricks.connection.default.pythonInterpreter'',
            ''databricks.connection.default.port'',
            ''databricks.connection.default.organizationId'',
            ''databricks.connection.default.exportFormats'',
            ''databricks.connection.default.useCodeCells'']"
      unfolding ws by (rule clean_keys)
    show "filter (updates_target Global) (effects ?out) =
         [ConfigurationUpdate ''databricks.userWorkspaceConfigurations''
            (UserWorkspaceConfigurationsValue ?W) Global]"
      by (simp add: clean_not_global)
    show "\<lparr>workspaceConfig = this_workspaceConfig (manager_after ?out),
         connections = this_connections (manager_after ?out)\<rparr> \<in> set ?W"
      by simp
    show "\<exists>act. activateConnection (manager_after ?out) X = Some act
              \<and> workspaceGuid (this_workspaceConfig (manager_after act)) =
                  workspaceGuid (this_workspaceConfig (manager_after ?out))
              \<and> filter (updates_key ''databricks.workspaceConfiguration'' Workspace) (effects act) =
                  [ConfigurationUpdate ''databricks.workspaceConfiguration''
                     (WorkspaceConfigurationValue (this_workspaceConfig (manager_after act)))
                     Workspace]"
      if "filter (\<lambda>x. displayName x = X) (this_connections (manager_after ?out)) = [c]" for X c
      using that by (rule act)
  qed
qed

lemma fresh_merged:
  "merged_connections example_manager_env fresh_configuration =
     [example_connection ''A'' ''https://explicit'']"
proof -
  have e: "getConnectionsFromWorkspace example_manager_env fresh_configuration =
     [example_connection ''A'' ''https://explicit'']"
    by (simp add: getConnectionsFromWorkspace_def fresh_configuration_def validated_filter
          example_manager_env_def example_connection_def del: validated.simps)
  have "getDefaultConnectionFromWorkspace example_manager_env fresh_configuration = None"
    by (rule example_default_absent) (simp add: fresh_configuration_def)
  then have d: "default_source example_manager_env fresh_configuration = []"
    by (simp add: default_source_def)
  have p: "persisted_source example_manager_env fresh_configuration = []"
    by (simp add: persisted_source_def fresh_matching)
  show ?thesis
    by (simp add: merged_connections_def e d p)
qed

text \<open>A workspace without guid, loaded and then activated on its connection \<open>A\<close>.\<close>

theorem load_persists_guid_globally_witness:
  "length (matching_entries example_manager_env fresh_configuration) \<le> 1
   \<and> (\<exists>out act.
        loadConnections example_manager_env fresh_configuration new_manager = Some out
      \<and> filter (updates_key ''databricks.workspaceConfiguration'' Workspace) (effects out) = []
      \<and> activateConnection (manager_after out) ''A'' = Some act
      \<and> filter (updates_key ''databricks.workspaceConfiguration'' Workspace) (effects act) =
          [ConfigurationUpdate ''databricks.workspaceConfiguration''
             (WorkspaceConfigurationValue (this_workspaceConfig (manager_after act))) Workspace]
      \<and> workspaceGuid (this_workspaceConfig (manager_after act)) = Some ''guid-1'')"
proof -
  have u: "length (matching_entries example_manager_env fresh_configuration) \<le> 1"
    by (simp add: fresh_matching)
  have w: "loaded_workspaceConfig example_manager_env fresh_configuration =
      \<lparr>workspaceGuid = Some ''guid-1'', lastActiveConnection = None\<rparr>"
    by (simp add: loaded_workspaceConfig_def fresh_configuration_def example_manager_env_def)
  from load_persists_guid_globally [OF u, of new_manager] obtain out where
    out: "loadConnections example_manager_env fresh_configuration new_manager = Some out"
      "filter (updates_key ''databricks.workspaceConfiguration'' Workspace) (effects out) = []"
      "\<forall>X c. filter (\<lambda>x. displayName x = X) (this_connections (manager_after out)) = [c] \<longrightarrow>
           (\<exists>act. activateConnection (manager_after out) X = Some act
              \<and> workspaceGuid (this_workspaceConfig (manager_after act)) =
                  workspaceGuid (this_workspaceConfig (manager_after out))
              \<and> filter (updates_key ''databricks.workspaceConfiguration'' Workspace) (effects act) =
                  [ConfigurationUpdate ''databricks.workspaceConfiguration''
                     (WorkspaceConfigurationValue (this_workspaceConfig (manager_after act)))
                     Workspace])"
    by blast
  from out(1) loadConnections_unique [OF u, of new_manager]
  have after: "this_connections (manager_after out) = [example_connection ''A'' ''https://explicit'']"
      "workspaceGuid (this_workspaceConfig (manager_after out)) = Some ''guid-1''"
    by (auto simp: fresh_merged w)
  have "filter (\<lambda>x. displayName x = ''A'') (this_connections (manager_after out)) =
      [example_connection ''A'' ''https://explicit'']"
    by (simp add: after(1) example_connection_def)
  with out(3) obtain act where
    "activateConnection (manager_after out) ''A'' = Some act"
    "workspaceGuid (this_workspaceConfig (manager_after act)) =
       workspaceGuid (this_workspaceConfig (manager_after out))"
    "filter (updates_key ''databricks.workspaceConfiguration'' Workspace) (effects act) =
       [ConfigurationUpdate ''databricks.workspaceConfiguration''
          (WorkspaceConfigurationValue (this_workspaceConfig (manager_after act))) Workspace]"
    by blast
  with out(1,2) after(2) u show ?thesis
    by auto
qed

text \<open>
  Claim C3. On a loaded manager, for every name that zero or more than one connection
  carries, \<open>activateConnection\<close> raises the error whose message holds the name, leaves
  every field of the manager as it was, the active connection included, and makes no
  call on a collaborator.
\<close>

theorem activate_not_found:
  assumes "this_initialized m"
    and "length (filter (\<lambda>x. displayName x = X) (this_connections m)) \<noteq> 1"
  shows "activateConnection m X =
     Some \<lparr>result =
             Inl (Error (''Connection with name  '' @ [CHR 0x27] @ X @ [CHR 0x27]
                         @ '' could not be found!'')),
           manager_after = m, effects = []\<rparr>"
  using activateConnection_not_found [OF assms]
  by (simp add: not_found_message_def quoted_def)

text \<open>A name carried by two connections and a name carried by none.\<close>

theorem activate_not_found_witness:
  "this_initialized loaded_manager
   \<and> length (filter (\<lambda>x. displayName x = ''B'') (this_connections loaded_manager)) = 2
   \<and> activateConnection loaded_manager ''B'' =
       Some \<lparr>result =
               Inl (Error (''Connection with name  '' @ [CHR 0x27] @ ''B'' @ [CHR 0x27]
                           @ '' could not be found!'')),
             manager_after = loaded_manager, effects = []\<rparr>
   \<and> length (filter (\<lambda>x. displayName x = ''D'') (this_connections loaded_manager)) = 0
   \<and> activateConnection loaded_manager ''D'' =
       Some \<lparr>result =
               Inl (Error (''Connection with name  '' @ [CHR 0x27] @ ''D'' @ [CHR 0x27]
                           @ '' could not be found!'')),
             manager_after = loaded_manager, effects = []\<rparr>
   \<and> this_activeConnection loaded_manager = Some (example_connection ''A'' ''https://a'')"
proof -
  have i: "this_initialized loaded_manager"
    by (simp add: loaded_manager_def)
  have b: "length (filter (\<lambda>x. displayName x = ''B'') (this_connections loaded_manager)) = 2"
    by (simp add: loaded_manager_def example_connection_def)
  have d: "length (filter (\<lambda>x. displayName x = ''D'') (this_connections loaded_manager)) = 0"
    by (simp add: loaded_manager_def example_connection_def)
  have b1: "length (filter (\<lambda>x. displayName x = ''B'') (this_connections loaded_manager)) \<noteq> 1"
    using b by simp
  have d1: "length (filter (\<lambda>x. displayName x = ''D'') (this_connections loaded_manager)) \<noteq> 1"
    using d by simp
  have a: "this_activeConnection loaded_manager = Some (example_connection ''A'' ''https://a'')"
    by (simp add: loaded_manager_def)
  show ?thesis
    using i b d a activate_not_found [OF i b1] activate_not_found [OF i d1]
    by simp
qed

text \<open>
  Claim C4. On a loaded manager, when exactly one connection carries the name,
  \<open>activateConnection\<close> returns that connection, makes it the active one, records the
  name as \<open>lastActiveConnection\<close>, calls \<open>DatabricksApiService.initialize\<close> once, on that
  connection, and writes the workspace configuration to the workspace scope.
\<close>

theorem activate_found:
  assumes "this_initialized m"
    and "filter (\<lambda>x. displayName x = X) (this_connections m) = [c]"
  shows "\<exists>out. activateConnection m X = Some out
     \<and> result out = Inr c
     \<and> displayName c = X
     \<and> this_activeConnection (manager_after out) = Some c
     \<and> lastActiveConnection (this_workspaceConfig (manager_after out)) = Some X
     \<and> workspaceGuid (this_workspaceConfig (manager_after out)) =
         workspaceGuid (this_workspaceConfig m)
     \<and> this_connections (manager_after out) = this_connections m
     \<and> filter is_initialize (effects out) = [DatabricksApiService_initialize c]
     \<and> filter (updates_key ''databricks.workspaceConfiguration'' Workspace) (effects out) =
         [ConfigurationUpdate ''databricks.workspaceConfiguration''
            (WorkspaceConfigurationValue (this_workspaceConfig (manager_after out))) Workspace]"
proof -
  have "c \<in> set (filter (\<lambda>x. displayName x = X) (this_connections m))"
    by (simp add: assms(2))
  then have "displayName c = X" by simp
  then show ?thesis
    using activateConnection_found [OF assms] by simp
qed

text \<open>Activating \<open>C\<close> while \<open>A\<close> is active.\<close>

theorem activate_found_witness:
  "this_initialized loaded_manager
   \<and> filter (\<lambda>x. displayName x = ''C'') (this_connections loaded_manager) =
       [example_connection ''C'' ''https://c'']
   \<and> (\<exists>out. activateConnection loaded_manager ''C'' = Some out
        \<and> result out = Inr (example_connection ''C'' ''https://c'')
        \<and> this_activeConnection (manager_after out) = Some (example_connection ''C'' ''https://c'')
        \<and> lastActiveConnection (this_workspaceConfig (manager_after out)) = Some ''C''
        \<and> filter is_initialize (effects out) =
            [DatabricksApiService_initialize (example_connection ''C'' ''https://c'')])"
proof -
  have i: "this_initialized loaded_manager"
    by (simp add: loaded_manager_def)
  have f: "filter (\<lambda>x. displayName x = ''C'') (this_connections loaded_manager) =
       [example_connection ''C'' ''https://c'']"
    by (simp add: loaded_manager_def example_connection_def)
  from activate_found [OF i f] i f show ?thesis
    by blast
qed

text \<open>
  Claim C5. When more than one entry of the global list carries the guid of the current
  workspace, \<open>loadConnections\<close> raises the error about the user workspace
  configurations and issues no update: no entry is chosen and the list is not rewritten.
\<close>

theorem load_duplicate_guid:
  assumes "1 < length (matching_entries env cfg)"
  shows "\<exists>out. loadConnections env cfg m = Some out
     \<and> result out = Inl (Error duplicate_guid_message)
     \<and> effects out = []
     \<and> this_initialized (manager_after out) = this_initialized m"
  using loadConnections_duplicate [OF assms, of m] by simp

lemma corrupt_matching:
  "matching_entries example_manager_env corrupt_configuration =
     [\<lparr>workspaceConfig = workspace_1, connections = []\<rparr>,
      \<lparr>workspaceConfig = workspace_1,
       connections = [example_connection ''B'' ''https://persisted'']\<rparr>]"
  by (simp add: matching_entries_def loaded_workspaceConfig_def corrupt_configuration_def
        workspace_1_def)

text \<open>Two entries with the guid \<open>ws-1\<close>.\<close>

theorem load_duplicate_guid_witness:
  "length (matching_entries example_manager_env corrupt_configuration) = 2
   \<and> map_option result
         (loadConnections example_manager_env corrupt_configuration new_manager) =
       Some (Inl (Error duplicate_guid_message))
   \<and> map_option effects
         (loadConnections example_manager_env corrupt_configuration new_manager) =
       Some []"
proof -
  have l: "length (matching_entries example_manager_env corrupt_configuration) = 2"
    by (simp add: corrupt_matching)
  then have "1 < length (matching_entries example_manager_env corrupt_configuration)"
    by simp
  from load_duplicate_guid [OF this, of new_manager] l show ?thesis
    by auto
qed

text \<open>
  Claim C6. The one update \<open>loadConnections\<close> issues at the global scope writes a list
  in which the entries of the other workspaces are those of the list read, unchanged and
  in their order, and the current workspace has exactly one entry, the freshly merged one.
\<close>

theorem load_global_frame:
  assumes "length (matching_entries env cfg) \<le> 1"
  shows "\<exists>out W. loadConnections env cfg m = Some out \<and> result out = Inr ()
     \<and> filter (updates_target Global) (effects out) =
         [ConfigurationUpdate ''databricks.userWorkspaceConfigurations''
            (UserWorkspaceConfigurationsValue W) Global]
     \<and> filter (\<lambda>x. workspaceGuid (workspaceConfig x)
                     \<noteq> workspaceGuid (this_workspaceConfig (manager_after out))) W =
         filter (\<lambda>x. workspaceGuid (workspaceConfig x)
                     \<noteq> workspaceGuid (this_workspaceConfig (manager_after out)))
           (databricks_userWorkspaceConfigurations cfg)
     \<and> filter (\<lambda>x. workspaceGuid (workspaceConfig x)
                     = workspaceGuid (this_workspaceConfig (manager_after out))) W =
         [\<lparr>workspaceConfig = this_workspaceConfig (manager_after out),
           connections = this_connections (manager_after out)\<rparr>]
     \<and> this_workspaceConfig (manager_after out) = loaded_workspaceConfig env cfg"
proof -
  let ?g = "workspaceGuid (loaded_workspaceConfig env cfg)"
  let ?W = "filter (\<lambda>x. workspaceGuid (workspaceConfig x) \<noteq> ?g)
              (databricks_userWorkspaceConfigurations cfg)
            @ [\<lparr>workspaceConfig = loaded_workspaceConfig env cfg,
                 connections = merged_connections env cfg\<rparr>]"
  have other: "filter (\<lambda>x. workspaceGuid (workspaceConfig x) \<noteq> ?g) ?W =
      filter (\<lambda>x. workspaceGuid (workspaceConfig x) \<noteq> ?g)
        (databricks_userWorkspaceConfigurations cfg)"
    by simp
  have own: "filter (\<lambda>x. workspaceGuid (workspaceConfig x) = ?g) ?W =
      [\<lparr>workspaceConfig = loaded_workspaceConfig env cfg,
        connections = merged_connections env cfg\<rparr>]"
    by (simp add: filter_empty_conv)
  show ?thesis
    using loadConnections_unique [OF assms, of m] other own
    by (simp add: clean_not_global)
qed

lemma overlap_merged:
  "merged_connections example_manager_env overlap_configuration =
     [example_connection ''A'' ''https://explicit'', example_connection ''B'' ''https://persisted'']"
  by (simp add: merged_connections_def overlap_sources) (simp add: example_connection_def)

text \<open>The entry of the workspace \<open>ws-2\<close> is kept, the one of \<open>ws-1\<close> replaced.\<close>

theorem load_global_frame_witness:
  "length (matching_entries example_manager_env overlap_configuration) \<le> 1
   \<and> (\<exists>out W.
        loadConnections example_manager_env overlap_configuration new_manager = Some out
      \<and> filter (updates_target Global) (effects out) =
          [ConfigurationUpdate ''databricks.userWorkspaceConfigurations''
             (UserWorkspaceConfigurationsValue W) Global]
      \<and> filter (\<lambda>x. workspaceGuid (workspaceConfig x) \<noteq> Some ''ws-1'') W =
          [\<lparr>workspaceConfig = workspace_2,
            connections = [example_connection ''Z'' ''https://other'']\<rparr>]
      \<and> filter (\<lambda>x. workspaceGuid (workspaceConfig x) = Some ''ws-1'') W =
          [\<lparr>workspaceConfig = workspace_1,
            connections = [example_connection ''A'' ''https://explicit'',
                           example_connection ''B'' ''https://persisted'']\<rparr>])"
proof -
  have u: "length (matching_entries example_manager_env overlap_configuration) \<le> 1"
    by (simp add: overlap_matching)
  have w: "loaded_workspaceConfig example_manager_env overlap_configuration = workspace_1"
    by (simp add: loaded_workspaceConfig_def overlap_configuration_def workspace_1_def)
  have g: "workspaceGuid workspace_1 = Some ''ws-1''"
    by (simp add: workspace_1_def)
  have others: "filter (\<lambda>x. workspaceGuid (workspaceConfig x) \<noteq> Some ''ws-1'')
      (databricks_userWorkspaceConfigurations overlap_configuration) =
      [\<lparr>workspaceConfig = workspace_2,
        connections = [example_connection ''Z'' ''https://other'']\<rparr>]"
    by (simp add: overlap_configuration_def workspace_1_def workspace_2_def)
  from load_global_frame [OF u, of new_manager] obtain out W where
    out: "loadConnections example_manager_env overlap_configuration new_manager = Some out"
      "filter (updates_target Global) (effects out) =
         [ConfigurationUpdate ''databricks.userWorkspaceConfigurations''
            (UserWorkspaceConfigurationsValue W) Global]"
      "filter (\<lambda>x. workspaceGuid (workspaceConfig x)
                     \<noteq> workspaceGuid (this_workspaceConfig (manager_after out))) W =
         filter (\<lambda>x. workspaceGuid (workspaceConfig x)
                     \<noteq> workspaceGuid (this_workspaceConfig (manager_after out)))
           (databricks_userWorkspaceConfigurations overlap_configuration)"
      "filter (\<lambda>x. workspaceGuid (workspaceConfig x)
                     = workspaceGuid (this_workspaceConfig (manager_after out))) W =
         [\<lparr>workspaceConfig = this_workspaceConfig (manager_after out),
           connections = this_connections (manager_after out)\<rparr>]"
      "this_workspaceConfig (manager_after out) =
         loaded_workspaceConfig example_manager_env overlap_configuration"
    by blast
  from out(1) loadConnections_unique [OF u, of new_manager]
  have c: "this_connections (manager_after out) =
      [example_connection ''A'' ''https://explicit'', example_connection ''B'' ''https://persisted'']"
    by (auto simp: overlap_merged)
  show ?thesis
    using u out(1,2) out(3,4) [unfolded out(5) w g c others]
    by blast
qed

end
